theory Spec2Isabelle
  imports Main
begin

section \<open>JavaScript values\<close>

text \<open>
  The primitive JavaScript values that the modelled code inspects. Numbers are the
  integers the rules use (scores, counts); \<open>NaN\<close> and fractions do not occur in them.
  Characters are 8-bit, so the model covers ASCII text; a character outside ASCII is
  written as its UTF-8 bytes.
\<close>

datatype jsval = JUndefined | JNull | JBool bool | JNum int | JStr string

text \<open>Truthiness, as tested by \<^verbatim>\<open>if (v)\<close>, \<^verbatim>\<open>!v\<close> and \<^verbatim>\<open>!!v\<close>.\<close>

fun truthy :: "jsval \<Rightarrow> bool" where
  "truthy JUndefined = False"
| "truthy JNull = False"
| "truthy (JBool b) = b"
| "truthy (JNum n) = (n \<noteq> 0)"
| "truthy (JStr s) = (s \<noteq> [])"

text \<open>The operator \<^verbatim>\<open>!v\<close>: always a boolean.\<close>

definition js_not :: "jsval \<Rightarrow> jsval" where
  "js_not v = JBool (\<not> truthy v)"

text \<open>
  The operator \<^verbatim>\<open>a === b\<close>: on primitives, the same type and the same value.
\<close>

definition strict_eq :: "jsval \<Rightarrow> jsval \<Rightarrow> bool" where
  "strict_eq a b = (a = b)"

text \<open>The operator \<^verbatim>\<open>a ?? b\<close>.\<close>

fun nullish :: "jsval \<Rightarrow> jsval \<Rightarrow> jsval" where
  "nullish JUndefined d = d"
| "nullish JNull d = d"
| "nullish v d = v"

text \<open>
  A plain object with string keys is the list of its entries in insertion order;
  reading a property that is absent gives \<open>None\<close> (\<^verbatim>\<open>undefined\<close>).
\<close>

type_synonym 'v obj = "(string \<times> 'v) list"

definition get_prop :: "'v obj \<Rightarrow> string \<Rightarrow> 'v option" where
  "get_prop ob k = map_of ob k"

definition Object_values :: "'v obj \<Rightarrow> 'v list" where
  "Object_values ob = map snd ob"

definition Object_keys :: "'v obj \<Rightarrow> string list" where
  "Object_keys ob = map fst ob"

text \<open>
  A \<^verbatim>\<open>Map\<close> is the list of its entries in insertion order with no key twice:
  \<^verbatim>\<open>set\<close> overwrites the value of a key that is present and appends otherwise,
  and \<^verbatim>\<open>new Map(entries)\<close> sets the entries one after the other.
\<close>

fun Map_set :: "'k \<Rightarrow> 'v \<Rightarrow> ('k \<times> 'v) list \<Rightarrow> ('k \<times> 'v) list" where
  "Map_set k v [] = [(k, v)]"
| "Map_set k v ((k', v') # m) =
     (if k' = k then (k, v) # m else (k', v') # Map_set k v m)"

definition Map_new :: "('k \<times> 'v) list \<Rightarrow> ('k \<times> 'v) list" where
  "Map_new entries = fold (\<lambda>(k, v) m. Map_set k v m) entries []"

definition Map_get :: "('k \<times> 'v) list \<Rightarrow> 'k \<Rightarrow> 'v option" where
  "Map_get m k = map_of m k"

section \<open>Constants (\<^verbatim>\<open>constants.js\<close>)\<close>

definition DIE_SCORES :: "nat obj" where
  "DIE_SCORES = [(''A'', 12), (''B'', 10), (''C'', 8), (''D'', 6)]"

definition STRENGTH :: string where "STRENGTH = ''str''"
definition AGILITY :: string where "AGILITY = ''agi''"
definition INTELLIGENCE :: string where "INTELLIGENCE = ''int''"
definition EMPATHY :: string where "EMPATHY = ''emp''"
definition VEHICLE_MANEUVERABILITY :: string where "VEHICLE_MANEUVERABILITY = ''mvr''"

definition ATTRIBUTES :: "string obj" where
  "ATTRIBUTES =
    [(''STRENGTH'', STRENGTH),
     (''AGILITY'', AGILITY),
     (''INTELLIGENCE'', INTELLIGENCE),
     (''EMPATHY'', EMPATHY),
     (''VEHICLE_MANEUVERABILITY'', VEHICLE_MANEUVERABILITY)]"

definition FORCE :: string where "FORCE = ''force''"
definition CLOSE_COMBAT :: string where "CLOSE_COMBAT = ''closeCombat''"
definition STAMINA :: string where "STAMINA = ''stamina''"
definition FIREARMS :: string where "FIREARMS = ''firearms''"
definition MOBILITY :: string where "MOBILITY = ''mobility''"
definition STEALTH :: string where "STEALTH = ''stealth''"
definition MEDICAL_AID :: string where "MEDICAL_AID = ''medicalAid''"
definition OBSERVATION :: string where "OBSERVATION = ''observation''"
definition TECH :: string where "TECH = ''tech''"
definition DRIVING :: string where "DRIVING = ''driving''"
definition CONNECTIONS :: string where "CONNECTIONS = ''connections''"
definition INSIGHT :: string where "INSIGHT = ''insight''"
definition MANIPULATION :: string where "MANIPULATION = ''manipulation''"

definition SKILLS :: "string obj" where
  "SKILLS =
    [(''FORCE'', FORCE),
     (''CLOSE_COMBAT'', CLOSE_COMBAT),
     (''STAMINA'', STAMINA),
     (''FIREARMS'', FIREARMS),
     (''MOBILITY'', MOBILITY),
     (''STEALTH'', STEALTH),
     (''MEDICAL_AID'', MEDICAL_AID),
     (''OBSERVATION'', OBSERVATION),
     (''TECH'', TECH),
     (''DRIVING'', DRIVING),
     (''CONNECTIONS'', CONNECTIONS),
     (''INSIGHT'', INSIGHT),
     (''MANIPULATION'', MANIPULATION)]"

definition HEALTH :: string where "HEALTH = ''health''"
definition RESOLVE :: string where "RESOLVE = ''resolve''"

definition CAPACITIES :: "string obj" where
  "CAPACITIES = [(''HEALTH'', HEALTH), (''RESOLVE'', RESOLVE)]"

definition HUMAN :: string where "HUMAN = ''human''"
definition REPLICANT :: string where "REPLICANT = ''replicant''"

definition NATURES :: "string obj" where
  "NATURES = [(''HUMAN'', HUMAN), (''REPLICANT'', REPLICANT)]"

section \<open>Configuration (\<^verbatim>\<open>config.js\<close>)\<close>

text \<open>The label of the score 0 is an en dash (U+2013), here its three UTF-8 bytes.\<close>

definition EN_DASH :: string where
  "EN_DASH = [CHR 0xE2, CHR 0x80, CHR 0x93]"

definition scoreMap :: "(string \<times> nat) list" where
  "scoreMap = fold (\<lambda>(score, v) m. Map_set score v m) DIE_SCORES (Map_set EN_DASH 0 [])"

definition dieMap :: "(nat \<times> string) list" where
  "dieMap = Map_new (map (\<lambda>(n, v). (v, n)) scoreMap)"

definition vehicleAttribute :: string where
  "vehicleAttribute = VEHICLE_MANEUVERABILITY"

definition FLBR_attributes :: "string list" where
  "FLBR_attributes = filter (\<lambda>v. v \<noteq> vehicleAttribute) (Object_values ATTRIBUTES)"

definition skillMap :: "string obj" where
  "skillMap =
    [(CLOSE_COMBAT, STRENGTH),
     (FORCE, STRENGTH),
     (STAMINA, STRENGTH),
     (FIREARMS, AGILITY),
     (MOBILITY, AGILITY),
     (STEALTH, AGILITY),
     (MEDICAL_AID, INTELLIGENCE),
     (OBSERVATION, INTELLIGENCE),
     (TECH, INTELLIGENCE),
     (CONNECTIONS, EMPATHY),
     (INSIGHT, EMPATHY),
     (MANIPULATION, EMPATHY),
     (DRIVING, VEHICLE_MANEUVERABILITY)]"

definition FLBR_skills :: "string list" where
  "FLBR_skills = Object_keys skillMap"

record capacity_entry =
  attributes :: "string list"
  cap_max :: nat

definition capacitiesMap :: "capacity_entry obj" where
  "capacitiesMap =
    [(HEALTH, \<lparr>attributes = [STRENGTH, AGILITY], cap_max = 10\<rparr>),
     (RESOLVE, \<lparr>attributes = [INTELLIGENCE, EMPATHY], cap_max = 10\<rparr>)]"

definition maxPushMap :: "nat obj" where
  "maxPushMap = [(HUMAN, 1), (REPLICANT, 2)]"

definition pushTraumaMap :: "(string obj) obj" where
  "pushTraumaMap =
    [(HUMAN,
        [(STRENGTH, HEALTH),
         (AGILITY, HEALTH),
         (INTELLIGENCE, RESOLVE),
         (EMPATHY, RESOLVE)]),
     (REPLICANT,
        [(STRENGTH, RESOLVE),
         (AGILITY, RESOLVE),
         (INTELLIGENCE, RESOLVE),
         (EMPATHY, RESOLVE)])]"

text \<open>The nested read \<^verbatim>\<open>FLBR.pushTraumaMap[nature][attribute]\<close>.\<close>

definition pushTrauma :: "string \<Rightarrow> string \<Rightarrow> string option" where
  "pushTrauma nature attribute =
     (case get_prop pushTraumaMap nature of
        None \<Rightarrow> None
      | Some row \<Rightarrow> get_prop row attribute)"

text \<open>
  The capacities whose \<^verbatim>\<open>attributes\<close> list in \<^verbatim>\<open>FLBR.capacitiesMap\<close> holds the
  attribute: the capacities governing it.
\<close>

definition governing :: "string \<Rightarrow> string list" where
  "governing attribute =
     map fst (filter (\<lambda>(c, e). attribute \<in> set (attributes e)) capacitiesMap)"

section \<open>Versioned notification display (\<^verbatim>\<open>display-messages.js\<close>)\<close>

text \<open>
  A version string such as \<^verbatim>\<open>'10.291'\<close> or \<^verbatim>\<open>'1.2.0'\<close> is the list of its
  dot-separated numeric parts.
\<close>

type_synonym version = "nat list"

text \<open>
  \<^verbatim>\<open>foundry.utils.isNewerVersion(v1, v0)\<close> belongs to the host, not to the repository.
  It walks the parts of \<open>v1\<close>: a part that \<open>v0\<close> lacks makes \<open>v1\<close> newer, the first
  differing part decides by numeric comparison, and equal versions are not newer.
\<close>

fun isNewerVersion :: "version \<Rightarrow> version \<Rightarrow> bool" where
  "isNewerVersion [] v0 = False"
| "isNewerVersion (p1 # v1) [] = True"
| "isNewerVersion (p1 # v1) (p0 # v0) =
     (if p1 \<noteq> p0 then p1 > p0 else isNewerVersion v1 v0)"

text \<open>Semantic-version precedence, part by part from the left.\<close>

fun semverLess :: "version \<Rightarrow> version \<Rightarrow> bool" where
  "semverLess [] [] = False"
| "semverLess [] (b # bs) = True"
| "semverLess (a # as) [] = False"
| "semverLess (a # as) (b # bs) = (if a = b then semverLess as bs else a < b)"

text \<open>
  Modelled from the spec: \<^verbatim>\<open>semverComp\<close> of \<^verbatim>\<open>@utils/semver-compare\<close>, which is
  not among the sources. The spec calls it a semantic-version range comparison with an
  inclusive lower bound and an exclusive upper bound, the inclusive lower bound being
  the configurable option \<^verbatim>\<open>gEqMin\<close>; without the option the lower bound is taken
  as exclusive.
\<close>

definition semverComp :: "version \<Rightarrow> version \<Rightarrow> version \<Rightarrow> bool \<Rightarrow> bool" where
  "semverComp vmin cur vmax gEqMin =
     ((if gEqMin then \<not> semverLess cur vmin else semverLess vmin cur)
      \<and> semverLess cur vmax)"

text \<open>
  A record of the message catalog. \<open>display\<close> and \<open>msg_type\<close> (the property
  \<^verbatim>\<open>type\<close>) are arbitrary values; a version bound that is absent or null is \<open>None\<close>.
\<close>

record message =
  display :: jsval
  title :: string
  content :: string
  msg_type :: jsval
  min_core_version :: "version option"
  max_core_version :: "version option"
  min_sys_version :: "version option"
  max_sys_version :: "version option"

text \<open>\<^verbatim>\<open>msg[key] ?? fallback\<close> on a version bound.\<close>

fun orDefault :: "'a option \<Rightarrow> 'a \<Rightarrow> 'a" where
  "orDefault None d = d"
| "orDefault (Some v) d = v"

text \<open>What the module reads from the host's \<^verbatim>\<open>game\<close> object.\<close>

record game =
  version :: version
  system_version :: version
  user_name :: string
  user_id :: string
  localize :: "string \<Rightarrow> string"

record dialog =
  dialog_title :: string
  dialog_content :: string
  dialog_label :: string
  dialog_width :: nat
  dialog_classes :: "string list"

record chat_message =
  chat_whisper :: "string list"
  chat_alias :: string
  chat_canPopout :: bool
  chat_title :: string
  chat_content :: string

text \<open>
  The state the module changes: the setting \<^verbatim>\<open>DISPLAYED_MESSAGES\<close> (\<open>None\<close> when
  the host returns \<^verbatim>\<open>undefined\<close> for it), the prompts that are open and the chat
  messages created. A write of the setting is taken as complete when it is issued.
\<close>

record client =
  displayed :: "string list option"
  dialogs :: "dialog list"
  chat :: "chat_message list"

datatype js_error = TypeError | SyntaxError | NetworkError

text \<open>
  \<^verbatim>\<open>str.replace(pattern, replacement)\<close> with a string pattern: the first occurrence
  only. The \<^verbatim>\<open>$\<close> patterns of the replacement are not modelled.
\<close>

fun String_replace :: "string \<Rightarrow> string \<Rightarrow> string \<Rightarrow> string" where
  "String_replace pat rep [] = (if pat = [] then rep else [])"
| "String_replace pat rep (c # cs) =
     (if take (length pat) (c # cs) = pat then rep @ drop (length pat) (c # cs)
      else c # String_replace pat rep cs)"

text \<open>The characters that \<^verbatim>\<open>.\<close> does not match in a regular expression.\<close>

definition lineTerminator :: "char \<Rightarrow> bool" where
  "lineTerminator c = (c = CHR 0x0A \<or> c = CHR 0x0D)"

text \<open>
  \<^verbatim>\<open>data.replace(/[^:]\/\/(.*)/g, '')\<close>: every match, from the left and without
  overlap, of one character other than a colon, two slashes and the rest of the line
  is deleted.
\<close>

function stripJSON :: "string \<Rightarrow> string" where
  "stripJSON [] = []"
| "stripJSON [c] = [c]"
| "stripJSON [c, d] = [c, d]"
| "stripJSON (c # d # e # rest) =
     (if c \<noteq> CHR '':'' \<and> d = CHR ''/'' \<and> e = CHR ''/''
      then stripJSON (dropWhile (\<lambda>x. \<not> lineTerminator x) rest)
      else c # stripJSON (d # e # rest))"
  by pat_completeness auto
termination
  by (relation "measure length") (auto intro: le_imp_less_Suc length_dropWhile_le le_SucI)

definition hasDisplayed :: "client \<Rightarrow> string \<Rightarrow> bool" where
  "hasDisplayed st identifier =
     (case displayed st of
        None \<Rightarrow> False
      | Some settings \<Rightarrow> if identifier \<in> set settings then True else False)"

text \<open>
  \<^verbatim>\<open>!msg.display === 'once'\<close> parses as \<^verbatim>\<open>(!msg.display) === 'once'\<close>; the
  operator \<^verbatim>\<open>||\<close> takes its right operand when the left one is false.
\<close>

definition isCurrent :: "game \<Rightarrow> client \<Rightarrow> message \<Rightarrow> bool" where
  "isCurrent G st msg =
     (let isDisplayable =
            (if strict_eq (js_not (display msg)) (JStr ''once'') then True
             else \<not> hasDisplayed st (title msg));
          correctCoreVersion =
            (isNewerVersion (orDefault (max_core_version msg) [100, 0, 0]) (version G)
             \<and> isNewerVersion (version G) (orDefault (min_core_version msg) [0, 0, 0]));
          correctSysVersion =
            semverComp (orDefault (min_sys_version msg) [0, 0, 0])
              (system_version G)
              (orDefault (max_sys_version msg) [100, 0, 0])
              True
      in isDisplayable \<and> correctCoreVersion \<and> correctSysVersion)"

text \<open>
  \<^verbatim>\<open>setDisplayed\<close> reads the setting, pushes the identifier and writes the list
  back; \<^verbatim>\<open>flat()\<close> leaves a list of strings as it is. On an undefined setting the
  push throws inside the asynchronous function and nothing is written.
\<close>

definition setDisplayed :: "string \<Rightarrow> client \<Rightarrow> client" where
  "setDisplayed identifier st =
     (case displayed st of
        None \<Rightarrow> st
      | Some settings \<Rightarrow> st\<lparr>displayed := Some (settings @ [identifier])\<rparr>)"

definition SYSTEM_ID :: string where
  "SYSTEM_ID = ''blade-runner''"

text \<open>
  \<^verbatim>\<open>displayPrompt\<close> opens a dialog; its callback, \<^verbatim>\<open>setDisplayed(title)\<close>, runs
  when the user presses the button (\<open>confirmPrompt\<close>, on the \<open>i\<close>-th open dialog).
\<close>

definition displayPrompt :: "game \<Rightarrow> string \<Rightarrow> string \<Rightarrow> client \<Rightarrow> client" where
  \<open>displayPrompt G ttl cnt st =
     (let cnt' = String_replace ''{name}'' (user_name G) cnt
      in st\<lparr>dialogs := dialogs st @
           [\<lparr>dialog_title = ttl,
             dialog_content =
               ''<img src="systems/'' @ SYSTEM_ID
                 @ ''/assets/bladerunner-banner-small.webp"/>'' @ cnt',
             dialog_label = ''Understood!'',
             dialog_width = 600,
             dialog_classes = [SYSTEM_ID, ''dialog'']\<rparr>]\<rparr>)\<close>

definition confirmPrompt :: "nat \<Rightarrow> client \<Rightarrow> client" where
  "confirmPrompt i st =
     (if i < length (dialogs st)
      then setDisplayed (dialog_title (dialogs st ! i))
             (st\<lparr>dialogs := take i (dialogs st) @ drop (Suc i) (dialogs st)\<rparr>)
      else st)"

definition sendToChat :: "game \<Rightarrow> string \<Rightarrow> string \<Rightarrow> client \<Rightarrow> client" where
  \<open>sendToChat G ttl cnt st =
     (let cnt' = String_replace ''{name}'' (user_name G) cnt;
          st' = setDisplayed ttl st;
          footer = ''<footer class="nue">'' @ localize G ''NUE.FirstLaunchHint''
                     @ ''</footer>''
      in st'\<lparr>chat := chat st' @
           [\<lparr>chat_whisper = [user_id G],
             chat_alias = ''Blade Runner RPG'',
             chat_canPopout = True,
             chat_title = ttl,
             chat_content =
               ''<div class="chat-card"><h3 class="nue">'' @ ttl @ ''</h3>'' @ cnt'
                 @ footer @ ''</div>''\<rparr>]\<rparr>)\<close>

definition handleDisplay :: "game \<Rightarrow> message \<Rightarrow> client \<Rightarrow> client" where
  "handleDisplay G msg st =
     (if \<not> isCurrent G st msg then st
      else if strict_eq (msg_type msg) (JStr ''prompt'')
        then displayPrompt G (title msg) (content msg) st
      else if strict_eq (msg_type msg) (JStr ''chat'')
        then sendToChat G (title msg) (content msg) st
      else st)"

text \<open>
  \<^verbatim>\<open>displayMessages\<close>: \<open>resp\<close> is the text of the fetched catalog (\<open>None\<close> when
  the fetch rejects) and \<open>JSON_parse\<close> is the language's parser, giving \<open>None\<close> where
  \<^verbatim>\<open>JSON.parse\<close> throws; a text that parses is taken to be an array of message
  records. The result is the error that rejects the returned promise, if any, and the
  state left behind.
\<close>

definition displayMessages ::
  "game \<Rightarrow> (string \<Rightarrow> message list option) \<Rightarrow> string option \<Rightarrow> client
     \<Rightarrow> js_error option \<times> client" where
  "displayMessages G JSON_parse resp st =
     (case resp of
        None \<Rightarrow> (Some NetworkError, st)
      | Some jsonc \<Rightarrow>
          (case JSON_parse (stripJSON jsonc) of
             None \<Rightarrow> (Some SyntaxError, st)
           | Some messages \<Rightarrow> (None, fold (handleDisplay G) messages st)))"

section \<open>Item rolls (\<^verbatim>\<open>item-document.js\<close>)\<close>

text \<open>
  The owning actor, through what \<^verbatim>\<open>roll()\<close> asks of it; the actor document is
  not among the sources, so its methods are fields. \<open>'m\<close> is the type of a modifier.
\<close>

record 'm actor =
  getAttribute :: "string \<Rightarrow> jsval"
  getSkill :: "string option \<Rightarrow> jsval"
  getRollModifiers :: "string list \<Rightarrow> 'm list"
  nature :: string

text \<open>
  An item: its name, the properties \<^verbatim>\<open>qty\<close>, \<^verbatim>\<open>rollable\<close>, \<^verbatim>\<open>attribute\<close>
  and \<^verbatim>\<open>skill\<close> of its data (a key that is undefined is \<open>None\<close>), and its owner.
\<close>

record 'm item =
  item_name :: string
  qty :: int
  props_rollable :: jsval
  props_attribute :: "string option"
  props_skill :: "string option"
  item_actor :: "'m actor option"

text \<open>The options that \<^verbatim>\<open>roll()\<close> hands to \<^verbatim>\<open>new BRRollHandler\<close>.\<close>

record 'm roll_options =
  roll_title :: string
  roll_actor :: "'m actor"
  attributeKey :: string
  skillKey :: "string option"
  dice :: "jsval list"
  roll_items :: "'m item list"
  modifiers :: "'m list"
  maxPush :: "nat option"

definition rollable :: "'m item \<Rightarrow> bool" where
  "rollable it = (\<not> \<not> truthy (nullish (props_rollable it) (JBool False)))"

text \<open>Decimal digits of a number, as a template literal prints it.\<close>

fun showNat :: "nat \<Rightarrow> string" where
  "showNat n =
     (if n < 10 then [char_of (48 + n)]
      else showNat (n div 10) @ [char_of (48 + n mod 10)])"

definition detailedName :: "'m item \<Rightarrow> string" where
  "detailedName it =
     (let str = item_name it
      in if qty it > 1 then str @ '' ('' @ showNat (nat (qty it)) @ '')'' else str)"

text \<open>\<^verbatim>\<open>toUpperCase()\<close> on ASCII letters.\<close>

definition upperChar :: "char \<Rightarrow> char" where
  "upperChar c =
     (let n = (of_char c :: nat)
      in if 97 \<le> n \<and> n \<le> 122 then char_of (n - 32) else c)"

definition toUpperCase :: "string \<Rightarrow> string" where
  "toUpperCase s = map upperChar s"

text \<open>
  \<^verbatim>\<open>roll()\<close>. \<open>capitalize\<close> is the helper of \<^verbatim>\<open>@utils/string-util\<close>, which is
  not among the sources; a key tested as a condition is false when it is undefined or
  the empty string; \<open>ui\<close> is the list of the roll handlers rendered so far.
  The result is the handler that was built and rendered, with the new list, or
  \<open>None\<close> with the list as it was when the method returns early; calling
  \<^verbatim>\<open>toUpperCase\<close> on an undefined attribute key throws.
\<close>

definition roll ::
  "game \<Rightarrow> (string \<Rightarrow> string) \<Rightarrow> 'm item \<Rightarrow> 'm roll_options list
     \<Rightarrow> js_error + ('m roll_options option \<times> 'm roll_options list)" where
  "roll G capitalize it ui =
     (if \<not> rollable it then Inr (None, ui)
      else case item_actor it of
        None \<Rightarrow> Inr (None, ui)
      | Some act \<Rightarrow>
         (case props_attribute it of
            None \<Rightarrow> Inl TypeError
          | Some attrKey \<Rightarrow>
             (let sklKey = props_skill it;
                  attributeName = localize G (''FLBR.ATTRIBUTE.'' @ toUpperCase attrKey);
                  skillName =
                    (case sklKey of
                       None \<Rightarrow> None
                     | Some k \<Rightarrow>
                         if k \<noteq> [] then Some (localize G (''FLBR.SKILL.'' @ capitalize k))
                         else None);
                  ttl = detailedName it @ '' ('' @ attributeName
                          @ (case skillName of None \<Rightarrow> [] | Some n \<Rightarrow> '' & '' @ n)
                          @ '')'';
                  attributeValue = getAttribute act attrKey;
                  skillValue = getSkill act sklKey;
                  targets =
                    (case sklKey of
                       None \<Rightarrow> [attrKey]
                     | Some k \<Rightarrow> if k \<noteq> [] then [attrKey] @ [k] else [attrKey]);
                  dice0 = [];
                  dice1 = (if truthy attributeValue then dice0 @ [attributeValue] else dice0);
                  dice2 = (if truthy skillValue then dice1 @ [skillValue] else dice1);
                  roller =
                    \<lparr>roll_title = ttl,
                     roll_actor = act,
                     attributeKey = attrKey,
                     skillKey = sklKey,
                     dice = dice2,
                     roll_items = [it],
                     modifiers = getRollModifiers act targets,
                     maxPush = get_prop maxPushMap (nature act)\<rparr>
              in Inr (Some roller, ui @ [roller]))))"

section \<open>Pushing a roll\<close>

text \<open>
  Modelled from the spec: the push of the roll handler
  (\<^verbatim>\<open>src/components/roll/roller\<close> and the dice library under it), which is not among
  the sources. A resolved roll is its dice, each a size and the face it shows, and the
  pushes that remain, at first the maximum push count. A push re-evaluates only the
  dice that do not show a success face and decrements the remaining push count; with no
  push remaining it is rejected silently and changes nothing. Which faces are
  successes (\<open>success\<close>) and what a die at a position of the pool shows when rolled again
  (\<open>fresh\<close>) are parameters.
\<close>

record roll_result =
  shown :: "(nat \<times> nat) list"
  pushesLeft :: nat

definition reroll ::
  "(nat \<Rightarrow> bool) \<Rightarrow> (nat \<Rightarrow> nat) \<Rightarrow> (nat \<times> nat) list \<Rightarrow> (nat \<times> nat) list" where
  "reroll success fresh ds =
     map (\<lambda>(i, (sz, face)). if success face then (sz, face) else (sz, fresh i))
       (enumerate 0 ds)"

definition push :: "(nat \<Rightarrow> bool) \<Rightarrow> (nat \<Rightarrow> nat) \<Rightarrow> roll_result \<Rightarrow> roll_result" where
  "push success fresh r =
     (if pushesLeft r = 0 then r
      else \<lparr>shown = reroll success fresh (shown r), pushesLeft = pushesLeft r - 1\<rparr>)"

section \<open>Example data\<close>

text \<open>
  A running host (core version 10.291, system version 1.2.0), a client that has shown
  nothing yet and one that has recorded the title \<open>Welcome\<close>, and catalog records
  without version bounds or with a bound equal to a running version.
\<close>

definition exampleGame :: game where
  "exampleGame =
     \<lparr>version = [10, 291], system_version = [1, 2, 0], user_name = ''Deckard'',
      user_id = ''u1'', localize = id\<rparr>"

definition exampleFresh :: client where
  "exampleFresh = \<lparr>displayed = Some [], dialogs = [], chat = []\<rparr>"

definition exampleShown :: client where
  "exampleShown = \<lparr>displayed = Some [''Welcome''], dialogs = [], chat = []\<rparr>"

definition exampleMessage :: message where
  "exampleMessage =
     \<lparr>display = JStr ''once'', title = ''Welcome'', content = ''Hello {name}'',
      msg_type = JStr ''chat'', min_core_version = None, max_core_version = None,
      min_sys_version = None, max_sys_version = None\<rparr>"

definition exampleEvery :: message where
  "exampleEvery = exampleMessage\<lparr>display := JStr ''every''\<rparr>"

definition examplePrompt :: message where
  "examplePrompt = exampleMessage\<lparr>msg_type := JStr ''prompt''\<rparr>"

definition exampleAtMinCore :: message where
  "exampleAtMinCore = exampleMessage\<lparr>min_core_version := Some [10, 291]\<rparr>"

definition exampleAtMinSys :: message where
  "exampleAtMinSys = exampleMessage\<lparr>min_sys_version := Some [1, 2, 0]\<rparr>"

text \<open>A parser that accepts the empty catalog only, in the place of \<^verbatim>\<open>JSON.parse\<close>.\<close>

definition emptyCatalogParser :: "string \<Rightarrow> message list option" where
  "emptyCatalogParser s = (if s = ''[]'' then Some [] else None)"

text \<open>
  A human with strength 10 and force 8 and no roll modifiers, a rollable item of
  theirs, and a resolved roll with no push left.
\<close>

definition exampleActor :: "unit actor" where
  "exampleActor =
     \<lparr>getAttribute = (\<lambda>k. if k = STRENGTH then JNum 10 else JUndefined),
      getSkill = (\<lambda>k. if k = Some FORCE then JNum 8 else JUndefined),
      getRollModifiers = (\<lambda>targets. []),
      nature = HUMAN\<rparr>"

definition exampleItem :: "unit item" where
  "exampleItem =
     \<lparr>item_name = ''Crowbar'', qty = 1, props_rollable = JBool True,
      props_attribute = Some STRENGTH, props_skill = Some FORCE,
      item_actor = Some exampleActor\<rparr>"

definition exampleResult :: roll_result where
  "exampleResult = \<lparr>shown = [(10, 3), (8, 7)], pushesLeft = 0\<rparr>"

section \<open>The tables\<close>

lemmas enum_defs =
  STRENGTH_def AGILITY_def INTELLIGENCE_def EMPATHY_def VEHICLE_MANEUVERABILITY_def
  FORCE_def CLOSE_COMBAT_def STAMINA_def FIREARMS_def MOBILITY_def STEALTH_def
  MEDICAL_AID_def OBSERVATION_def TECH_def DRIVING_def CONNECTIONS_def INSIGHT_def
  MANIPULATION_def HEALTH_def RESOLVE_def HUMAN_def REPLICANT_def

lemma scoreMap_entries:
  "scoreMap = [(EN_DASH, 0), (''A'', 12), (''B'', 10), (''C'', 8), (''D'', 6)]"
  by (simp add: scoreMap_def DIE_SCORES_def EN_DASH_def)

lemma dieMap_entries:
  "dieMap = [(0, EN_DASH), (12, ''A''), (10, ''B''), (8, ''C''), (6, ''D'')]"
  by (simp add: dieMap_def Map_new_def scoreMap_entries)

lemmas example_defs = exampleGame_def exampleFresh_def exampleMessage_def

text \<open>
  C6. For every score \<open>v\<close> among 6, 8, 10 and 12, the die map gives a label whose
  entry in the score map is \<open>v\<close> again, and no other label has the score \<open>v\<close>: the
  round trip from a score to its die and back is the identity, and the two maps are
  inverse to each other there.
\<close>

theorem dieMap_scoreMap_roundtrip:
  assumes "v \<in> {6, 8, 10, 12}"
  shows "\<exists>l. Map_get dieMap v = Some l \<and> Map_get scoreMap l = Some v
           \<and> (\<forall>l'. Map_get scoreMap l' = Some v \<longrightarrow> l' = l)"
  using assms
  by (auto simp: Map_get_def dieMap_entries scoreMap_entries EN_DASH_def split: if_splits)

theorem dieMap_scoreMap_roundtrip_witness:
  "(8::nat) \<in> {6, 8, 10, 12}
   \<and> (\<exists>l. Map_get dieMap 8 = Some l \<and> Map_get scoreMap l = Some 8
          \<and> (\<forall>l'. Map_get scoreMap l' = Some 8 \<longrightarrow> l' = l))"
  using dieMap_scoreMap_roundtrip [of 8] by simp

text \<open>
  C3. For every attribute among strength, agility, intelligence and empathy, the
  push-trauma table gives for a human the one capacity that governs the attribute in
  the capacities table (health for strength and agility, resolve for intelligence and
  empathy), and for a replicant it gives resolve.
\<close>

theorem pushTraumaMap_capacity:
  assumes "a \<in> {STRENGTH, AGILITY, INTELLIGENCE, EMPATHY}"
  shows "\<exists>c. pushTrauma HUMAN a = Some c
           \<and> governing a = [c]
           \<and> c = (if a = STRENGTH \<or> a = AGILITY then HEALTH else RESOLVE)
           \<and> pushTrauma REPLICANT a = Some RESOLVE"
  using assms
  by (auto simp: pushTrauma_def pushTraumaMap_def get_prop_def governing_def
      capacitiesMap_def enum_defs)

theorem pushTraumaMap_capacity_witness:
  "EMPATHY \<in> {STRENGTH, AGILITY, INTELLIGENCE, EMPATHY}
   \<and> pushTrauma HUMAN EMPATHY = Some RESOLVE
   \<and> governing EMPATHY = [RESOLVE]
   \<and> pushTrauma REPLICANT EMPATHY = Some RESOLVE"
  using pushTraumaMap_capacity [of EMPATHY] by (auto simp: enum_defs)

section \<open>The character's attributes and skills\<close>

text \<open>
  The claim that the character has exactly five attribute scores fails on the list of
  character attributes that the configuration builds: it has four entries.
\<close>

theorem FLBR_attributes_not_five:
  "\<not> length FLBR_attributes = 5"
  by (simp add: FLBR_attributes_def Object_values_def ATTRIBUTES_def vehicleAttribute_def
      enum_defs)

text \<open>
  C8, as amended. The constants name exactly five attributes, and the configuration
  keeps as the character's attributes the four other than vehicle maneuverability.
  The constants name exactly thirteen skills; the skill map has exactly these thirteen
  keys, each once, and so gives each skill exactly one governing attribute: strength
  for force, close combat and stamina, agility for firearms, mobility and stealth,
  intelligence for medical aid, observation and tech, vehicle maneuverability for
  driving, empathy for connections, insight and manipulation.
\<close>

theorem attributes_and_skills:
  "length (Object_values ATTRIBUTES) = 5
   \<and> distinct (Object_values ATTRIBUTES)
   \<and> FLBR_attributes = [STRENGTH, AGILITY, INTELLIGENCE, EMPATHY]
   \<and> length (Object_values SKILLS) = 13
   \<and> distinct (Object_values SKILLS)
   \<and> length FLBR_skills = 13
   \<and> distinct FLBR_skills
   \<and> set FLBR_skills = set (Object_values SKILLS)
   \<and> map (get_prop skillMap) (Object_values SKILLS)
       = [Some STRENGTH, Some STRENGTH, Some STRENGTH,
          Some AGILITY, Some AGILITY, Some AGILITY,
          Some INTELLIGENCE, Some INTELLIGENCE, Some INTELLIGENCE,
          Some VEHICLE_MANEUVERABILITY,
          Some EMPATHY, Some EMPATHY, Some EMPATHY]"
proof -
  have attrs: "length (Object_values ATTRIBUTES) = 5 \<and> distinct (Object_values ATTRIBUTES)"
    by (simp add: Object_values_def ATTRIBUTES_def enum_defs)
  have four: "FLBR_attributes = [STRENGTH, AGILITY, INTELLIGENCE, EMPATHY]"
    by (simp add: FLBR_attributes_def Object_values_def ATTRIBUTES_def vehicleAttribute_def
        enum_defs)
  have skills: "length (Object_values SKILLS) = 13 \<and> distinct (Object_values SKILLS)"
    by (simp add: Object_values_def SKILLS_def enum_defs)
  have keys: "length FLBR_skills = 13 \<and> distinct FLBR_skills"
    by (simp add: FLBR_skills_def Object_keys_def skillMap_def enum_defs)
  have same: "set FLBR_skills = set (Object_values SKILLS)"
    by (simp add: FLBR_skills_def Object_keys_def Object_values_def skillMap_def SKILLS_def
        insert_commute)
  have governs: "map (get_prop skillMap) (Object_values SKILLS)
       = [Some STRENGTH, Some STRENGTH, Some STRENGTH,
          Some AGILITY, Some AGILITY, Some AGILITY,
          Some INTELLIGENCE, Some INTELLIGENCE, Some INTELLIGENCE,
          Some VEHICLE_MANEUVERABILITY,
          Some EMPATHY, Some EMPATHY, Some EMPATHY]"
    by (simp add: get_prop_def Object_values_def skillMap_def SKILLS_def enum_defs)
  from attrs four skills keys same governs show ?thesis by simp
qed

section \<open>Eligibility of a message\<close>

lemma isNewerVersion_irrefl: "\<not> isNewerVersion v v"
  by (induction v) auto

lemma semverLess_irrefl: "\<not> semverLess v v"
  by (induction v) auto

text \<open>A boolean is never strictly equal to a string.\<close>

lemma not_strict_eq_once: "strict_eq (js_not v) (JStr ''once'') = False"
  by (simp add: strict_eq_def js_not_def)

lemma isCurrent_iff:
  "isCurrent G st msg =
     (\<not> hasDisplayed st (title msg)
      \<and> isNewerVersion (orDefault (max_core_version msg) [100, 0, 0]) (version G)
      \<and> isNewerVersion (version G) (orDefault (min_core_version msg) [0, 0, 0])
      \<and> \<not> semverLess (system_version G) (orDefault (min_sys_version msg) [0, 0, 0])
      \<and> semverLess (system_version G) (orDefault (max_sys_version msg) [100, 0, 0]))"
  by (simp add: isCurrent_def not_strict_eq_once semverComp_def Let_def)

text \<open>
  C1. The claim makes a message of scope \<open>every\<close> eligible whenever its version bounds
  hold, recorded or not. The record \<open>exampleEvery\<close> has scope \<open>every\<close> and no
  bounds, and it is eligible on a client that has recorded nothing; once its title is
  in the shown-list, \<^verbatim>\<open>isCurrent\<close> rejects it.
\<close>

theorem every_message_suppressed:
  "display exampleEvery = JStr ''every''
   \<and> isCurrent exampleGame exampleFresh exampleEvery
   \<and> hasDisplayed exampleShown (title exampleEvery)
   \<and> \<not> isCurrent exampleGame exampleShown exampleEvery"
  by (simp add: isCurrent_iff hasDisplayed_def example_defs exampleShown_def exampleEvery_def)

section \<open>Version bounds\<close>

text \<open>
  What \<^verbatim>\<open>isCurrent\<close> asks of the running versions: a message that is eligible has
  both ranges satisfied, and a message that is not eligible is not displayed, the state
  staying as it is. A maximum host version or a maximum system version equal to the
  running one excludes the message; a minimum system version equal to the running one
  admits it when the other bounds hold and its title is not recorded.
\<close>

lemma isCurrent_bounds_hold:
  "(isCurrent G st msg \<longrightarrow>
      isNewerVersion (version G) (orDefault (min_core_version msg) [0, 0, 0])
      \<and> isNewerVersion (orDefault (max_core_version msg) [100, 0, 0]) (version G)
      \<and> \<not> semverLess (system_version G) (orDefault (min_sys_version msg) [0, 0, 0])
      \<and> semverLess (system_version G) (orDefault (max_sys_version msg) [100, 0, 0]))
   \<and> (\<not> isCurrent G st msg \<longrightarrow> handleDisplay G msg st = st)
   \<and> (max_core_version msg = Some (version G) \<longrightarrow> \<not> isCurrent G st msg)
   \<and> (max_sys_version msg = Some (system_version G) \<longrightarrow> \<not> isCurrent G st msg)
   \<and> (min_sys_version msg = Some (system_version G)
        \<and> semverLess (system_version G) (orDefault (max_sys_version msg) [100, 0, 0])
        \<and> isNewerVersion (version G) (orDefault (min_core_version msg) [0, 0, 0])
        \<and> isNewerVersion (orDefault (max_core_version msg) [100, 0, 0]) (version G)
        \<and> \<not> hasDisplayed st (title msg)
      \<longrightarrow> isCurrent G st msg)"
  by (auto simp: isCurrent_iff handleDisplay_def isNewerVersion_irrefl semverLess_irrefl)

text \<open>
  C4. The claim makes the lower bound inclusive for the host version as for the module
  version: a message whose minimum bound equals the running version is displayed. The
  module check of \<^verbatim>\<open>isCurrent\<close> asks for that (\<^verbatim>\<open>gEqMin: true\<close>), and the record
  \<open>exampleAtMinSys\<close>, whose minimum system version is the running one, is eligible. The
  host check does not: the record \<open>exampleAtMinCore\<close> differs from the eligible
  \<open>exampleMessage\<close> only in a minimum host version equal to the running one, and
  \<^verbatim>\<open>isCurrent\<close> rejects it, so that it is not displayed.
\<close>

theorem min_core_bound_exclusive:
  "min_sys_version exampleAtMinSys = Some (system_version exampleGame)
   \<and> isCurrent exampleGame exampleFresh exampleAtMinSys
   \<and> isCurrent exampleGame exampleFresh exampleMessage
   \<and> min_core_version exampleAtMinCore = Some (version exampleGame)
   \<and> \<not> isCurrent exampleGame exampleFresh exampleAtMinCore
   \<and> handleDisplay exampleGame exampleAtMinCore exampleFresh = exampleFresh"
  by (simp add: isCurrent_iff handleDisplay_def hasDisplayed_def example_defs
      exampleAtMinCore_def exampleAtMinSys_def)

section \<open>The shown-list\<close>

text \<open>
  The claim makes every recording of a shown message keep each title at most once.
  A catalog with two prompts of one title opens two dialogs on a client whose list is
  empty, and confirming both records the title twice.
\<close>

theorem two_prompts_recorded_twice:
  "displayed exampleFresh = Some []
   \<and> displayed (confirmPrompt 0 (confirmPrompt 0
        (fold (handleDisplay exampleGame) [examplePrompt, examplePrompt] exampleFresh)))
     = Some [''Welcome'', ''Welcome'']"
  by (simp add: isCurrent_iff hasDisplayed_def example_defs examplePrompt_def
      handleDisplay_def strict_eq_def displayPrompt_def confirmPrompt_def setDisplayed_def
      Let_def)

text \<open>
  C5, as amended. \<^verbatim>\<open>setDisplayed\<close> appends the title to the shown-list without
  looking for it there: on a list without duplicates the new list is without
  duplicates exactly when the title was not in it. Handling a message of scope \<open>once\<close>
  keeps the list without duplicates, since the title is recorded at that moment only
  for a chat message whose title \<^verbatim>\<open>isCurrent\<close> has just found missing from the
  list.
\<close>

theorem setDisplayed_distinct:
  assumes "displayed st = Some xs" and "distinct xs"
  shows "displayed (setDisplayed t st) = Some (xs @ [t])
         \<and> distinct (xs @ [t]) = (t \<notin> set xs)
         \<and> (display msg = JStr ''once'' \<longrightarrow>
              (\<exists>ys. displayed (handleDisplay G msg st) = Some ys \<and> distinct ys))"
  using assms
  by (auto simp: setDisplayed_def handleDisplay_def isCurrent_iff hasDisplayed_def
      displayPrompt_def sendToChat_def Let_def)

theorem setDisplayed_distinct_witness:
  "displayed exampleFresh = Some []
   \<and> displayed (setDisplayed ''Welcome'' exampleFresh) = Some [''Welcome'']
   \<and> display exampleMessage = JStr ''once''
   \<and> displayed (handleDisplay exampleGame exampleMessage exampleFresh) = Some [''Welcome'']"
proof -
  have st: "displayed exampleFresh = Some []"
    by (simp add: exampleFresh_def)
  have shown: "displayed (handleDisplay exampleGame exampleMessage exampleFresh)
                 = Some [''Welcome'']"
    by (simp add: isCurrent_iff hasDisplayed_def example_defs handleDisplay_def strict_eq_def
        sendToChat_def setDisplayed_def Let_def)
  from setDisplayed_distinct [OF st, of "''Welcome''" exampleMessage exampleGame] st shown
  show ?thesis by (simp add: exampleMessage_def)
qed

section \<open>A malformed catalog\<close>

text \<open>
  C9. When the comment-stripped text of the fetched catalog is not valid JSON, the
  display pass ends with the syntax error before any message is handled: no dialog is
  opened, no chat message is created and the shown-list is unchanged.
\<close>

theorem displayMessages_malformed:
  assumes "JSON_parse (stripJSON jsonc) = None"
  shows "displayMessages G JSON_parse (Some jsonc) st = (Some SyntaxError, st)"
  using assms by (simp add: displayMessages_def)

theorem displayMessages_malformed_witness:
  "emptyCatalogParser (stripJSON ''[ // no messages'') = None
   \<and> displayMessages exampleGame emptyCatalogParser (Some ''[ // no messages'') exampleFresh
       = (Some SyntaxError, exampleFresh)"
  using displayMessages_malformed
    [of emptyCatalogParser "''[ // no messages''" exampleGame exampleFresh]
  by (simp add: emptyCatalogParser_def)

text \<open>A catalog that parses is handled record by record, in order.\<close>

lemma displayMessages_parsed:
  "JSON_parse (stripJSON jsonc) = Some messages \<Longrightarrow>
     displayMessages G JSON_parse (Some jsonc) st = (None, fold (handleDisplay G) messages st)"
  by (simp add: displayMessages_def)

section \<open>Item rolls\<close>

text \<open>
  C10. When the item's rollable flag is false or the item has no owning actor,
  \<^verbatim>\<open>roll()\<close> returns at once: it throws nothing, builds no roll handler, renders
  nothing and leaves the rendered handlers as they were.
\<close>

theorem roll_early_return:
  assumes "\<not> rollable it \<or> item_actor it = None"
  shows "roll G capitalize it ui = Inr (None, ui)"
  using assms by (auto simp: roll_def)

theorem roll_early_return_witness:
  "\<not> rollable (exampleItem\<lparr>props_rollable := JUndefined\<rparr>)
   \<and> roll exampleGame id (exampleItem\<lparr>props_rollable := JUndefined\<rparr>) [] = Inr (None, [])
   \<and> item_actor (exampleItem\<lparr>item_actor := None\<rparr>) = None
   \<and> roll exampleGame id (exampleItem\<lparr>item_actor := None\<rparr>) [] = Inr (None, [])"
  using roll_early_return [of "exampleItem\<lparr>props_rollable := JUndefined\<rparr>" exampleGame id "[]"]
    roll_early_return [of "exampleItem\<lparr>item_actor := None\<rparr>" exampleGame id "[]"]
  by (simp add: rollable_def exampleItem_def)

text \<open>
  C7. A roll of a rollable item with an owner and an attribute key builds and renders
  one handler, whose dice are the attribute score and the skill score in this order,
  without the scores that are zero or absent; with an attribute score of 10 and a skill
  score of 8 the dice are exactly 10 and 8.
\<close>

theorem roll_dice:
  assumes "rollable it" and "item_actor it = Some act" and "props_attribute it = Some k"
  shows "\<exists>r. roll G capitalize it ui = Inr (Some r, ui @ [r])
           \<and> dice r = filter truthy [getAttribute act k, getSkill act (props_skill it)]
           \<and> (getAttribute act k = JNum 10 \<and> getSkill act (props_skill it) = JNum 8
                \<longrightarrow> dice r = [JNum 10, JNum 8])"
  using assms by (auto simp: roll_def Let_def)

theorem roll_dice_witness:
  "rollable exampleItem
   \<and> item_actor exampleItem = Some exampleActor
   \<and> props_attribute exampleItem = Some STRENGTH
   \<and> getRollModifiers exampleActor [STRENGTH, FORCE] = []
   \<and> (\<exists>r. roll exampleGame id exampleItem [] = Inr (Some r, [r])
          \<and> dice r = [JNum 10, JNum 8])
   \<and> getSkill exampleActor None = JUndefined
   \<and> (\<exists>r. roll exampleGame id (exampleItem\<lparr>props_skill := None\<rparr>) [] = Inr (Some r, [r])
          \<and> dice r = [JNum 10])"
  using roll_dice [of exampleItem exampleActor STRENGTH exampleGame id "[]"]
    roll_dice [of "exampleItem\<lparr>props_skill := None\<rparr>" exampleActor STRENGTH exampleGame id "[]"]
  by (simp add: rollable_def exampleItem_def exampleActor_def)

text \<open>
  C2. The maximum push count of a nature is the value of the fixed map, 1 for a human
  and 2 for a replicant; an item roll hands the roll handler exactly the map's value at
  the actor's nature as its maximum push count; and a push with no push remaining
  leaves the roll result as it is.
\<close>

theorem maxPush_and_push:
  "(n \<in> {HUMAN, REPLICANT} \<longrightarrow>
      get_prop maxPushMap n = Some (if n = HUMAN then 1 else 2))
   \<and> (rollable it \<and> item_actor it = Some act \<and> props_attribute it = Some k \<longrightarrow>
        (\<exists>r. roll G capitalize it ui = Inr (Some r, ui @ [r])
           \<and> maxPush r = get_prop maxPushMap (nature act)))
   \<and> (pushesLeft res = 0 \<longrightarrow> push success fresh res = res)"
  by (auto simp: get_prop_def maxPushMap_def enum_defs roll_def Let_def push_def)

theorem maxPush_and_push_witness:
  "HUMAN \<in> {HUMAN, REPLICANT}
   \<and> get_prop maxPushMap HUMAN = Some 1
   \<and> rollable exampleItem
   \<and> (\<exists>r. roll exampleGame id exampleItem [] = Inr (Some r, [r]) \<and> maxPush r = Some 1)
   \<and> pushesLeft exampleResult = 0
   \<and> push (\<lambda>face. 6 \<le> face) (\<lambda>i. 1) exampleResult = exampleResult"
proof -
  have item: "rollable exampleItem \<and> item_actor exampleItem = Some exampleActor
                \<and> props_attribute exampleItem = Some STRENGTH"
    by (simp add: rollable_def exampleItem_def)
  have none_left: "pushesLeft exampleResult = 0"
    by (simp add: exampleResult_def)
  have human: "nature exampleActor = HUMAN"
    by (simp add: exampleActor_def)
  from maxPush_and_push [of HUMAN exampleItem exampleActor STRENGTH exampleGame id "[]"
      exampleResult "\<lambda>face. 6 \<le> face" "\<lambda>i. 1"] item none_left human
  show ?thesis by auto
qed

text \<open>While a push remains, a push uses one up and keeps the dice that show a success.\<close>

lemma push_remaining:
  "pushesLeft res \<noteq> 0 \<Longrightarrow>
     pushesLeft (push success fresh res) = pushesLeft res - 1
     \<and> length (shown (push success fresh res)) = length (shown res)"
  by (simp add: push_def reroll_def)

end
